theory Spec2Isabelle
  imports Main "HOL-Library.Multiset" "HOL-Library.Sublist"
begin

section \<open>Data model (src/todo-app/src/types/database.ts, src/todo-app/src/App.tsx)\<close>

text \<open>
  \<^verbatim>\<open>type TodoStatus = 'todo' | 'in-progress' | 'done'\<close>. The three values are non-empty
  strings, so each of them is truthy in a JavaScript condition.
\<close>

datatype TodoStatus = TODO | IN_PROGRESS | DONE

text \<open>
  The row type \<^verbatim>\<open>Database['public']['Tables']['todos']['Row']\<close>. The fields \<^verbatim>\<open>id\<close>
  and \<^verbatim>\<open>text\<close> carry a prime because the plain names are taken in Isabelle.
\<close>

record Todo =
  id' :: string
  user_id :: string
  text' :: string
  completed :: bool
  status :: TodoStatus
  created_at :: string
  updated_at :: string

text \<open>
  The payload of a \<^verbatim>\<open>postgres_changes\<close> notification: the event type together with
  \<^verbatim>\<open>payload.new\<close> (insert, update) or \<^verbatim>\<open>payload.old.id\<close> (delete).
\<close>

datatype payload = INSERT Todo | UPDATE Todo | DELETE string

text \<open>
  The remote writes that the component issues through the Supabase client:
  \<^verbatim>\<open>insert({user_id, text, completed, status})\<close>, \<^verbatim>\<open>update({completed}).eq('id', id)\<close>,
  \<^verbatim>\<open>update({status}).eq('id', id)\<close>, \<^verbatim>\<open>delete().eq('id', id)\<close> and
  \<^verbatim>\<open>delete().in('id', ids)\<close> on the table \<^verbatim>\<open>todos\<close>.
\<close>

datatype supabase_call =
    InsertTodo string string bool TodoStatus
  | UpdateCompleted string bool
  | UpdateStatus string TodoStatus
  | DeleteEq string
  | DeleteIn "string list"

text \<open>
  What a handler does besides computing, in program order: a call of a React state
  setter, a remote write, a line on the console.
\<close>

datatype effect =
    SetTodos
  | SetNewTodo
  | SetNewTodoStatus
  | SupabaseWrite supabase_call
  | ConsoleError string

text \<open>
  The state of the component \<^verbatim>\<open>TodoApp\<close>: the three \<^verbatim>\<open>useState\<close> cells that the
  handlers write, and the effects performed so far, oldest first.
\<close>

record app_state =
  todos :: "Todo list"
  newTodo :: string
  newTodoStatus :: TodoStatus
  effects :: "effect list"

section \<open>State setters and remote calls\<close>

text \<open>
  Every call of \<^verbatim>\<open>setTodos\<close> in the component passes an updater function. React runs
  the queued updaters in the order of the calls, each on the result of the one before;
  the model runs each updater at its call.
\<close>

definition setTodos :: "(Todo list \<Rightarrow> Todo list) \<Rightarrow> app_state \<Rightarrow> app_state" where
  "setTodos f s = s\<lparr>todos := f (todos s), effects := effects s @ [SetTodos]\<rparr>"

definition setNewTodo :: "string \<Rightarrow> app_state \<Rightarrow> app_state" where
  "setNewTodo v s = s\<lparr>newTodo := v, effects := effects s @ [SetNewTodo]\<rparr>"

definition setNewTodoStatus :: "TodoStatus \<Rightarrow> app_state \<Rightarrow> app_state" where
  "setNewTodoStatus v s = s\<lparr>newTodoStatus := v, effects := effects s @ [SetNewTodoStatus]\<rparr>"

definition supabase_write :: "supabase_call \<Rightarrow> app_state \<Rightarrow> app_state" where
  "supabase_write c s = s\<lparr>effects := effects s @ [SupabaseWrite c]\<rparr>"

definition console_error :: "string \<Rightarrow> app_state \<Rightarrow> app_state" where
  "console_error m s = s\<lparr>effects := effects s @ [ConsoleError m]\<rparr>"

section \<open>The change-stream handler (App.tsx, lines 66 to 85)\<close>

fun payload_update :: "payload \<Rightarrow> Todo list \<Rightarrow> Todo list" where
  "payload_update (INSERT new) current =
     (let exists = list_ex (\<lambda>todo. id' todo = id' new) current
      in if exists then current else new # current)"
| "payload_update (UPDATE new) current =
     map (\<lambda>todo. if id' todo = id' new then new else todo) current"
| "payload_update (DELETE old_id) current =
     filter (\<lambda>todo. id' todo \<noteq> old_id) current"

definition on_postgres_changes :: "payload \<Rightarrow> app_state \<Rightarrow> app_state" where
  "on_postgres_changes p s = setTodos (payload_update p) s"

section \<open>Creating a record (App.tsx, addTodo, lines 94 to 116)\<close>

text \<open>
  \<^verbatim>\<open>String.prototype.trim\<close> removes white space and line terminators from both ends.
  A \<^typ>\<open>char\<close> stands for a code unit below 256, where these are the code units
  9 to 13, 32 and 160.
\<close>

definition isWhiteSpace :: "char \<Rightarrow> bool" where
  "isWhiteSpace ch = ((of_char ch :: nat) \<in> {9, 10, 11, 12, 13, 32, 160})"

definition trim :: "string \<Rightarrow> string" where
  "trim str = rev (dropWhile isWhiteSpace (rev (dropWhile isWhiteSpace str)))"

text \<open>
  \<^verbatim>\<open>addTodo\<close> awaits the remote insert. \<open>addTodo_start\<close> is the part of the handler that
  runs before the \<^verbatim>\<open>await\<close>, \<open>addTodo_finish\<close> the part that runs when the response
  \<^verbatim>\<open>{ data, error }\<close> has arrived (\<open>Inl\<close> the error, \<open>Inr\<close> the record that the backend
  returns); other callbacks may run between the two.
\<close>

definition addTodo_start :: "string \<Rightarrow> app_state \<Rightarrow> app_state" where
  "addTodo_start uid s =
     supabase_write (InsertTodo uid (trim (newTodo s)) False (newTodoStatus s)) s"

definition addTodo_finish :: "string + Todo \<Rightarrow> app_state \<Rightarrow> app_state" where
  "addTodo_finish response s =
     (case response of
        Inl error \<Rightarrow> console_error ''Error adding todo:'' s
      | Inr data \<Rightarrow>
          setNewTodoStatus TODO (setNewTodo [] (setTodos (\<lambda>current. data # current) s)))"

definition addTodo :: "string option \<Rightarrow> string + Todo \<Rightarrow> app_state \<Rightarrow> app_state" where
  "addTodo user response s =
     (if trim (newTodo s) = [] then s
      else case user of
        None \<Rightarrow> s
      | Some uid \<Rightarrow> addTodo_finish response (addTodo_start uid s))"

section \<open>Toggling the completed flag (App.tsx, toggleTodo, lines 118 to 140)\<close>

definition toggleTodo_optimistic :: "string \<Rightarrow> bool \<Rightarrow> Todo list \<Rightarrow> Todo list" where
  "toggleTodo_optimistic i c current =
     map (\<lambda>todo. if id' todo = i then todo\<lparr>completed := \<not> c\<rparr> else todo) current"

definition toggleTodo_revert :: "string \<Rightarrow> bool \<Rightarrow> Todo list \<Rightarrow> Todo list" where
  "toggleTodo_revert i c current =
     map (\<lambda>todo. if id' todo = i then todo\<lparr>completed := c\<rparr> else todo) current"

definition toggleTodo_start :: "string \<Rightarrow> bool \<Rightarrow> app_state \<Rightarrow> app_state" where
  "toggleTodo_start i c s =
     supabase_write (UpdateCompleted i (\<not> c)) (setTodos (toggleTodo_optimistic i c) s)"

text \<open>The \<^verbatim>\<open>error\<close> of a response is \<open>None\<close> when the write succeeded.\<close>

definition toggleTodo_finish :: "string \<Rightarrow> bool \<Rightarrow> string option \<Rightarrow> app_state \<Rightarrow> app_state" where
  "toggleTodo_finish i c error s =
     (if error \<noteq> None
      then setTodos (toggleTodo_revert i c) (console_error ''Error toggling todo:'' s)
      else s)"

definition toggleTodo :: "string \<Rightarrow> bool \<Rightarrow> string option \<Rightarrow> app_state \<Rightarrow> app_state" where
  "toggleTodo i c error s = toggleTodo_finish i c error (toggleTodo_start i c s)"

section \<open>Changing the status (App.tsx, updateTodoStatus, lines 142 to 169)\<close>

text \<open>
  The handlers below read \<^verbatim>\<open>todos\<close>, the list of the render that created the handler;
  it is the parameter \<open>rendered\<close>. The updater functions passed to \<^verbatim>\<open>setTodos\<close> receive
  the list that the state cell holds when they run.
\<close>

definition updateTodoStatus_optimistic :: "string \<Rightarrow> TodoStatus \<Rightarrow> Todo list \<Rightarrow> Todo list" where
  "updateTodoStatus_optimistic i st current =
     map (\<lambda>todo. if id' todo = i then todo\<lparr>status := st\<rparr> else todo) current"

definition updateTodoStatus_revert :: "string \<Rightarrow> TodoStatus \<Rightarrow> Todo list \<Rightarrow> Todo list" where
  "updateTodoStatus_revert i oldStatus current =
     map (\<lambda>todo. if id' todo = i then todo\<lparr>status := oldStatus\<rparr> else todo) current"

definition updateTodoStatus_start :: "string \<Rightarrow> TodoStatus \<Rightarrow> app_state \<Rightarrow> app_state" where
  "updateTodoStatus_start i st s =
     supabase_write (UpdateStatus i st) (setTodos (updateTodoStatus_optimistic i st) s)"

definition updateTodoStatus_finish ::
  "TodoStatus option \<Rightarrow> string \<Rightarrow> string option \<Rightarrow> app_state \<Rightarrow> app_state" where
  "updateTodoStatus_finish oldStatus i error s =
     (if error \<noteq> None
      then (let s1 = console_error ''Error updating todo status:'' s
            in case oldStatus of
                 None \<Rightarrow> s1
               | Some old \<Rightarrow> setTodos (updateTodoStatus_revert i old) s1)
      else s)"

definition updateTodoStatus ::
  "Todo list \<Rightarrow> string \<Rightarrow> TodoStatus \<Rightarrow> string option \<Rightarrow> app_state \<Rightarrow> app_state" where
  "updateTodoStatus rendered i st error s =
     (let oldStatus = map_option status (find (\<lambda>t. id' t = i) rendered)
      in updateTodoStatus_finish oldStatus i error (updateTodoStatus_start i st s))"

section \<open>Deleting a record (App.tsx, deleteTodo, lines 171 to 187)\<close>

definition deleteTodo_optimistic :: "string \<Rightarrow> Todo list \<Rightarrow> Todo list" where
  "deleteTodo_optimistic i current = filter (\<lambda>todo. id' todo \<noteq> i) current"

definition deleteTodo_start :: "string \<Rightarrow> app_state \<Rightarrow> app_state" where
  "deleteTodo_start i s = supabase_write (DeleteEq i) (setTodos (deleteTodo_optimistic i) s)"

definition deleteTodo_finish :: "Todo option \<Rightarrow> string option \<Rightarrow> app_state \<Rightarrow> app_state" where
  "deleteTodo_finish deletedTodo error s =
     (if error \<noteq> None
      then (let s1 = console_error ''Error deleting todo:'' s
            in case deletedTodo of
                 None \<Rightarrow> s1
               | Some d \<Rightarrow> setTodos (\<lambda>current. d # current) s1)
      else s)"

definition deleteTodo :: "Todo list \<Rightarrow> string \<Rightarrow> string option \<Rightarrow> app_state \<Rightarrow> app_state" where
  "deleteTodo rendered i error s =
     (let deletedTodo = find (\<lambda>t. id' t = i) rendered
      in deleteTodo_finish deletedTodo error (deleteTodo_start i s))"

section \<open>Clearing the completed records (App.tsx, clearCompleted, lines 189 to 203)\<close>

definition clearCompleted_optimistic :: "Todo list \<Rightarrow> Todo list" where
  "clearCompleted_optimistic current = filter (\<lambda>t. \<not> completed t) current"

definition clearCompleted_start :: "string list \<Rightarrow> app_state \<Rightarrow> app_state" where
  "clearCompleted_start completedIds s =
     supabase_write (DeleteIn completedIds) (setTodos clearCompleted_optimistic s)"

definition clearCompleted_finish :: "Todo list \<Rightarrow> string option \<Rightarrow> app_state \<Rightarrow> app_state" where
  "clearCompleted_finish completedTodos error s =
     (if error \<noteq> None
      then setTodos (\<lambda>current. completedTodos @ current)
             (console_error ''Error clearing completed todos:'' s)
      else s)"

definition clearCompleted :: "Todo list \<Rightarrow> string option \<Rightarrow> app_state \<Rightarrow> app_state" where
  "clearCompleted rendered error s =
     (let completedTodos = filter (\<lambda>t. completed t) rendered;
          completedIds = map (\<lambda>t. id' t) completedTodos
      in clearCompleted_finish completedTodos error (clearCompleted_start completedIds s))"

section \<open>Order of the effects of one handler\<close>

text \<open>The effects that a handler added to the ones performed before it ran.\<close>

definition performed :: "app_state \<Rightarrow> app_state \<Rightarrow> effect list" where
  "performed s s' = drop (length (effects s)) (effects s')"

fun is_write :: "effect \<Rightarrow> bool" where
  "is_write (SupabaseWrite c) = True"
| "is_write e = False"

text \<open>
  A remote write is issued, and the cache is updated before the first one: walking the
  effects from the oldest, \<^verbatim>\<open>setTodos\<close> is met before any remote write.
\<close>

fun local_precedes_remote :: "effect list \<Rightarrow> bool" where
  "local_precedes_remote [] = False"
| "local_precedes_remote (SupabaseWrite c # es) = False"
| "local_precedes_remote (SetTodos # es) = list_ex is_write es"
| "local_precedes_remote (e # es) = local_precedes_remote es"

section \<open>Configuration gate (lib/supabase.ts, lines 4 to 8; App.tsx, AppContent, lines 422 to 465)\<close>

text \<open>
  A value of \<^verbatim>\<open>import.meta.env\<close> is a string or \<^verbatim>\<open>undefined\<close> (\<open>None\<close>); the empty
  string is falsy as well.
\<close>

definition truthy :: "string option \<Rightarrow> bool" where
  "truthy v = (case v of None \<Rightarrow> False | Some str \<Rightarrow> str \<noteq> [])"

definition hasSupabaseConfig :: "string option \<Rightarrow> string option \<Rightarrow> bool" where
  "hasSupabaseConfig supabaseUrl supabaseAnonKey = (truthy supabaseUrl \<and> truthy supabaseAnonKey)"

datatype screen = ConfigurationError | Loading | AuthModal | TodoApp

text \<open>
  \<^verbatim>\<open>AppContent\<close> with the environment, and the \<^verbatim>\<open>loading\<close> flag and the \<^verbatim>\<open>user\<close> of
  \<^verbatim>\<open>useAuth()\<close>, as parameters.
\<close>

definition AppContent :: "string option \<Rightarrow> string option \<Rightarrow> bool \<Rightarrow> string option \<Rightarrow> screen" where
  "AppContent supabaseUrl supabaseAnonKey loading user =
     (if \<not> hasSupabaseConfig supabaseUrl supabaseAnonKey then ConfigurationError
      else if loading then Loading
      else if user = None then AuthModal
      else TodoApp)"

section \<open>Sample records and states used by the concrete instances\<close>

definition row :: "string \<Rightarrow> string \<Rightarrow> bool \<Rightarrow> TodoStatus \<Rightarrow> Todo" where
  "row i t c st =
     \<lparr>id' = i, user_id = ''u1'', text' = t, completed = c, status = st,
      created_at = ''2024-05-01T10:00:00Z'', updated_at = ''2024-05-01T10:00:00Z''\<rparr>"

definition milk :: Todo where
  "milk = row ''a'' ''Buy milk'' False TODO"

definition bread :: Todo where
  "bread = row ''b'' ''Bake bread'' True IN_PROGRESS"

definition eggs :: Todo where
  "eggs = row ''c'' ''Boil eggs'' True DONE"

definition rice :: Todo where
  "rice = row ''d'' ''Rinse rice'' False IN_PROGRESS"

definition soup :: Todo where
  "soup = row ''e'' ''Stir soup'' True TODO"

text \<open>A component that shows the given list, with an empty input box.\<close>

definition showing :: "Todo list \<Rightarrow> app_state" where
  "showing ts = \<lparr>todos = ts, newTodo = [], newTodoStatus = TODO, effects = []\<rparr>"

text \<open>The same with a text typed into the input box.\<close>

definition typing :: "string \<Rightarrow> Todo list \<Rightarrow> app_state" where
  "typing str ts = \<lparr>todos = ts, newTodo = str, newTodoStatus = TODO, effects = []\<rparr>"

text \<open>
  A create of \<open>''Buy milk''\<close> on an empty cache whose INSERT event is handled before the
  response of the insert.
\<close>

definition create_raced :: app_state where
  "create_raced =
     addTodo_finish (Inr milk)
       (on_postgres_changes (INSERT milk) (addTodo_start ''u1'' (typing ''Buy milk'' [])))"


lemmas sample_defs =
  milk_def bread_def eggs_def rice_def soup_def row_def showing_def typing_def

lemmas handler_defs =
  addTodo_def addTodo_start_def addTodo_finish_def
  toggleTodo_def toggleTodo_start_def toggleTodo_finish_def
  updateTodoStatus_def updateTodoStatus_start_def updateTodoStatus_finish_def
  deleteTodo_def deleteTodo_start_def deleteTodo_finish_def
  clearCompleted_def clearCompleted_start_def clearCompleted_finish_def
  on_postgres_changes_def

lemmas updater_defs =
  toggleTodo_optimistic_def toggleTodo_revert_def
  updateTodoStatus_optimistic_def updateTodoStatus_revert_def
  deleteTodo_optimistic_def clearCompleted_optimistic_def

section \<open>Reading the state after a setter or a remote call\<close>

lemma todos_setTodos [simp]: "todos (setTodos f s) = f (todos s)"
  by (simp add: setTodos_def)

lemma todos_setNewTodo [simp]: "todos (setNewTodo v s) = todos s"
  by (simp add: setNewTodo_def)

lemma todos_setNewTodoStatus [simp]: "todos (setNewTodoStatus v s) = todos s"
  by (simp add: setNewTodoStatus_def)

lemma todos_supabase_write [simp]: "todos (supabase_write c s) = todos s"
  by (simp add: supabase_write_def)

lemma todos_console_error [simp]: "todos (console_error m s) = todos s"
  by (simp add: console_error_def)

lemma effects_setTodos [simp]: "effects (setTodos f s) = effects s @ [SetTodos]"
  by (simp add: setTodos_def)

lemma effects_setNewTodo [simp]: "effects (setNewTodo v s) = effects s @ [SetNewTodo]"
  by (simp add: setNewTodo_def)

lemma effects_setNewTodoStatus [simp]:
  "effects (setNewTodoStatus v s) = effects s @ [SetNewTodoStatus]"
  by (simp add: setNewTodoStatus_def)

lemma effects_supabase_write [simp]:
  "effects (supabase_write c s) = effects s @ [SupabaseWrite c]"
  by (simp add: supabase_write_def)

lemma effects_console_error [simp]:
  "effects (console_error m s) = effects s @ [ConsoleError m]"
  by (simp add: console_error_def)

lemma newTodo_supabase_write [simp]: "newTodo (supabase_write c s) = newTodo s"
  by (simp add: supabase_write_def)

lemma newTodoStatus_supabase_write [simp]:
  "newTodoStatus (supabase_write c s) = newTodoStatus s"
  by (simp add: supabase_write_def)

section \<open>Identifiers in a list of records\<close>

lemma list_ex_same_id:
  "list_ex (\<lambda>todo. id' todo = i) xs \<longleftrightarrow> i \<in> set (map id' xs)"
  by (induction xs) auto

lemma map_absent_id:
  "i \<notin> set (map id' xs) \<Longrightarrow> map (\<lambda>todo. if id' todo = i then f todo else todo) xs = xs"
  by (induction xs) auto

lemma filter_absent_id:
  "i \<notin> set (map id' xs) \<Longrightarrow> filter (\<lambda>todo. id' todo \<noteq> i) xs = xs"
  by (induction xs) auto


lemma find_id_None:
  "find (\<lambda>t. id' t = i) xs = None \<Longrightarrow> i \<notin> set (map id' xs)"
  by (induction xs) (auto split: if_splits)

lemma find_id_Some:
  "find (\<lambda>t. id' t = i) xs = Some d \<Longrightarrow> d \<in> set xs \<and> id' d = i"
  by (induction xs) (auto split: if_splits)

lemma same_id_same_record:
  "distinct (map id' xs) \<Longrightarrow> t \<in> set xs \<Longrightarrow> u \<in> set xs \<Longrightarrow> id' u = id' t \<Longrightarrow> u = t"
  by (simp add: distinct_map inj_on_def)

lemma toggle_round_trip:
  assumes "distinct (map id' xs)" and "t \<in> set xs"
  shows "toggleTodo_revert (id' t) (completed t)
           (toggleTodo_optimistic (id' t) (completed t) xs) = xs"
proof -
  have "u \<in> set xs \<Longrightarrow> id' u = id' t \<Longrightarrow> u\<lparr>completed := completed t\<rparr> = u" for u
    using same_id_same_record [OF assms, of u] by simp
  then show ?thesis
    unfolding toggleTodo_revert_def toggleTodo_optimistic_def map_map
    by (intro map_idI) simp
qed

lemma status_round_trip:
  assumes "distinct (map id' xs)" and "find (\<lambda>t. id' t = i) xs = Some d"
  shows "updateTodoStatus_revert i (status d) (updateTodoStatus_optimistic i st xs) = xs"
proof -
  from find_id_Some [OF assms(2)] have d: "d \<in> set xs" "id' d = i" by simp_all
  have "u \<in> set xs \<Longrightarrow> id' u = i \<Longrightarrow> u\<lparr>status := status d\<rparr> = u" for u
    using same_id_same_record [OF assms(1) d(1), of u] d(2) by simp
  then show ?thesis
    unfolding updateTodoStatus_revert_def updateTodoStatus_optimistic_def map_map
    by (intro map_idI) simp
qed

lemma filter_same_id:
  assumes "distinct (map id' xs)" and "find (\<lambda>t. id' t = i) xs = Some d"
  shows "filter (\<lambda>t. id' t = i) xs = [d]"
  using assms by (induction xs) (auto split: if_splits simp: filter_empty_conv image_iff)

lemma delete_reinsert_mset:
  assumes "distinct (map id' xs)" and "find (\<lambda>t. id' t = i) xs = Some d"
  shows "mset (d # filter (\<lambda>todo. id' todo \<noteq> i) xs) = mset xs"
proof -
  have "mset xs = mset (filter (\<lambda>t. id' t = i) xs) + mset (filter (\<lambda>t. id' t \<noteq> i) xs)"
    by (induction xs) auto
  then show ?thesis by (simp add: filter_same_id [OF assms])
qed

lemma count_by_id:
  "length (filter (\<lambda>u. id' u = j) zs) = count_list (map id' zs) j"
  by (induction zs) auto

lemma count_same_id:
  assumes "map id' xs = map id' ys"
  shows "length (filter (\<lambda>u. id' u = j) xs) = length (filter (\<lambda>u. id' u = j) ys)"
  unfolding count_by_id assms ..

section \<open>Order of the local update and the remote write\<close>

text \<open>
  C1 (as stated, refuted for create). The claim asks that every mutating action, create
  included, updates the cache before it issues its remote write. For a create of
  \<open>''Buy milk''\<close> by a signed-in user that the backend accepts, the first effect of
  \<open>addTodo\<close> is the remote insert and the cache is written after it.
\<close>

theorem create_writes_remote_first:
  "performed (typing ''Buy milk'' []) (addTodo (Some ''u1'') (Inr milk) (typing ''Buy milk'' [])) =
     [SupabaseWrite (InsertTodo ''u1'' ''Buy milk'' False TODO), SetTodos, SetNewTodo,
      SetNewTodoStatus] \<and>
   \<not> local_precedes_remote
       (performed (typing ''Buy milk'' [])
          (addTodo (Some ''u1'') (Inr milk) (typing ''Buy milk'' [])))"
  by (simp add: handler_defs performed_def sample_defs trim_def isWhiteSpace_def)

text \<open>
  C1 (amended). Toggle, set-status, delete and bulk-clear call \<^verbatim>\<open>setTodos\<close> with their
  optimistic update first and issue their remote write second, before any response is
  looked at; whatever the response, no remote write of theirs comes before the cache
  update. Create is the other way round: for a non-blank text and a signed-in user the
  remote insert is issued with the cache untouched, and the record returned by the backend
  is put in front of the cache once the insert has succeeded.
\<close>

theorem optimistic_update_precedes_remote_write:
  "performed s (toggleTodo_start i c s) = [SetTodos, SupabaseWrite (UpdateCompleted i (\<not> c))] \<and>
   local_precedes_remote (performed s (toggleTodo i c error s)) \<and>
   performed s (updateTodoStatus_start i st s) = [SetTodos, SupabaseWrite (UpdateStatus i st)] \<and>
   local_precedes_remote (performed s (updateTodoStatus rendered i st error s)) \<and>
   performed s (deleteTodo_start i s) = [SetTodos, SupabaseWrite (DeleteEq i)] \<and>
   local_precedes_remote (performed s (deleteTodo rendered i error s)) \<and>
   performed s (clearCompleted_start ids s) = [SetTodos, SupabaseWrite (DeleteIn ids)] \<and>
   local_precedes_remote (performed s (clearCompleted rendered error s)) \<and>
   (trim (newTodo s) \<noteq> [] \<longrightarrow>
      todos (addTodo_start uid s) = todos s \<and>
      performed s (addTodo (Some uid) (Inr data) s) =
        [SupabaseWrite (InsertTodo uid (trim (newTodo s)) False (newTodoStatus s)),
         SetTodos, SetNewTodo, SetNewTodoStatus] \<and>
      todos (addTodo (Some uid) (Inr data) s) = data # todos s)"
  by (simp add: handler_defs performed_def Let_def split: option.split)

theorem optimistic_update_precedes_remote_write_witness:
  "performed (typing '' Buy milk '' [bread]) (toggleTodo_start ''b'' True (typing '' Buy milk '' [bread])) =
     [SetTodos, SupabaseWrite (UpdateCompleted ''b'' False)] \<and>
   local_precedes_remote
     (performed (typing '' Buy milk '' [bread])
        (toggleTodo ''b'' True (Some ''offline'') (typing '' Buy milk '' [bread]))) \<and>
   local_precedes_remote
     (performed (typing '' Buy milk '' [bread])
        (deleteTodo [bread] ''b'' (Some ''offline'') (typing '' Buy milk '' [bread]))) \<and>
   trim (newTodo (typing '' Buy milk '' [bread])) \<noteq> [] \<and>
   todos (addTodo_start ''u1'' (typing '' Buy milk '' [bread])) = [bread] \<and>
   performed (typing '' Buy milk '' [bread])
      (addTodo (Some ''u1'') (Inr milk) (typing '' Buy milk '' [bread])) =
     [SupabaseWrite (InsertTodo ''u1'' ''Buy milk'' False TODO), SetTodos, SetNewTodo,
      SetNewTodoStatus] \<and>
   todos (addTodo (Some ''u1'') (Inr milk) (typing '' Buy milk '' [bread])) = [milk, bread]"
  using optimistic_update_precedes_remote_write
    [where s = "typing '' Buy milk '' [bread]" and i = "''b''" and c = True
       and error = "Some ''offline''" and rendered = "[bread]" and uid = "''u1''"
       and data = milk]
  by (simp add: sample_defs trim_def isWhiteSpace_def)

section \<open>One entry per identifier\<close>

text \<open>
  C2 (the code at the failing input). A create of \<open>''Buy milk''\<close> is issued on an empty
  cache; the change stream delivers the INSERT event of the new record before the
  response of the insert is handled. The INSERT handler adds the record; the success
  path of \<open>addTodo\<close> then puts the same record in front without looking for its
  identifier, and the cache holds two entries with one identifier. In the other order
  the INSERT handler finds the identifier and the cache keeps one entry.
\<close>

theorem create_after_insert_event_duplicates:
  "todos (addTodo_finish (Inr milk)
            (on_postgres_changes (INSERT milk) (addTodo_start ''u1'' (typing ''Buy milk'' []))))
     = [milk, milk] \<and>
   \<not> distinct (map id' (todos (addTodo_finish (Inr milk)
            (on_postgres_changes (INSERT milk) (addTodo_start ''u1'' (typing ''Buy milk'' [])))))) \<and>
   todos (on_postgres_changes (INSERT milk)
            (addTodo_finish (Inr milk) (addTodo_start ''u1'' (typing ''Buy milk'' []))))
     = [milk]"
  by (simp add: handler_defs sample_defs)

section \<open>Rollback after a failed remote write\<close>

text \<open>
  C3 (as stated, refuted for delete). The claim asks that a failed delete puts the record
  back at its prior position. Deleting \<open>bread\<close>, the second of two records, with a
  failing remote write leaves \<open>bread\<close> first: the cache after the rollback differs from
  the cache before the action.
\<close>

theorem delete_rollback_moves_record:
  "todos (deleteTodo [milk, bread] ''b'' (Some ''offline'') (showing [milk, bread])) =
     [bread, milk] \<and>
   todos (deleteTodo [milk, bread] ''b'' (Some ''offline'') (showing [milk, bread])) \<noteq>
     todos (showing [milk, bread])"
  by (simp add: handler_defs updater_defs sample_defs)

text \<open>
  C3 (amended). On a cache with one entry per identifier, for a single action issued from
  the rendered cache whose remote write fails: after a failed create, a failed toggle of
  a record (called with that record's completed flag) or a failed set-status the cache
  equals the cache before the action, field for field and in order. After a failed
  delete the deleted record is put back in front of the remaining records, which equals
  the prior cache when the record was the first one; after a failed bulk-clear the
  cleared records are put back in front of the surviving ones, each group in its prior
  relative order. In both cases the cache holds the same records as before the action.
\<close>

theorem failed_write_rollback:
  assumes "distinct (map id' (todos s))"
  shows "todos (addTodo user (Inl e) s) = todos s \<and>
   (\<forall>t \<in> set (todos s). todos (toggleTodo (id' t) (completed t) (Some e) s) = todos s) \<and>
   todos (updateTodoStatus (todos s) i st (Some e) s) = todos s \<and>
   todos (deleteTodo (todos s) i (Some e) s) =
     (case find (\<lambda>t. id' t = i) (todos s) of
        None \<Rightarrow> todos s
      | Some d \<Rightarrow> d # filter (\<lambda>t. id' t \<noteq> i) (todos s)) \<and>
   (\<forall>d rest. todos s = d # rest \<and> id' d = i \<longrightarrow>
      todos (deleteTodo (todos s) i (Some e) s) = todos s) \<and>
   mset (todos (deleteTodo (todos s) i (Some e) s)) = mset (todos s) \<and>
   todos (clearCompleted (todos s) (Some e) s) =
     filter (\<lambda>t. completed t) (todos s) @ filter (\<lambda>t. \<not> completed t) (todos s) \<and>
   mset (todos (clearCompleted (todos s) (Some e) s)) = mset (todos s)"
proof -
  have create: "todos (addTodo user (Inl e) s) = todos s"
    by (simp add: addTodo_def addTodo_start_def addTodo_finish_def split: option.split)
  have toggle:
    "\<forall>t \<in> set (todos s). todos (toggleTodo (id' t) (completed t) (Some e) s) = todos s"
    using assms
    by (simp add: toggleTodo_def toggleTodo_start_def toggleTodo_finish_def toggle_round_trip)
  have status: "todos (updateTodoStatus (todos s) i st (Some e) s) = todos s"
  proof (cases "find (\<lambda>t. id' t = i) (todos s)")
    case None
    then have "i \<notin> set (map id' (todos s))"
      by (rule find_id_None)
    with None show ?thesis
      by (simp add: updateTodoStatus_def updateTodoStatus_start_def
          updateTodoStatus_finish_def updateTodoStatus_optimistic_def map_absent_id)
  next
    case (Some d)
    with assms show ?thesis
      by (simp add: updateTodoStatus_def updateTodoStatus_start_def
          updateTodoStatus_finish_def status_round_trip)
  qed
  have delete: "todos (deleteTodo (todos s) i (Some e) s) =
     (case find (\<lambda>t. id' t = i) (todos s) of
        None \<Rightarrow> todos s
      | Some d \<Rightarrow> d # filter (\<lambda>t. id' t \<noteq> i) (todos s))"
  proof (cases "find (\<lambda>t. id' t = i) (todos s)")
    case None
    then have "i \<notin> set (map id' (todos s))"
      by (rule find_id_None)
    with None show ?thesis
      by (simp add: deleteTodo_def deleteTodo_start_def deleteTodo_finish_def
          deleteTodo_optimistic_def filter_absent_id)
  next
    case (Some d)
    then show ?thesis
      by (simp add: deleteTodo_def deleteTodo_start_def deleteTodo_finish_def
          deleteTodo_optimistic_def)
  qed
  have head: "\<forall>d rest. todos s = d # rest \<and> id' d = i \<longrightarrow>
      todos (deleteTodo (todos s) i (Some e) s) = todos s"
  proof (intro allI impI)
    fix d rest
    assume h: "todos s = d # rest \<and> id' d = i"
    with assms have "i \<notin> set (map id' rest)" by auto
    then have rest: "filter (\<lambda>t. id' t \<noteq> i) rest = rest"
      by (rule filter_absent_id)
    from h have "find (\<lambda>t. id' t = i) (todos s) = Some d" by simp
    with delete have "todos (deleteTodo (todos s) i (Some e) s) =
        d # filter (\<lambda>t. id' t \<noteq> i) (todos s)"
      by simp
    also from h rest have "\<dots> = todos s" by simp
    finally show "todos (deleteTodo (todos s) i (Some e) s) = todos s" .
  qed
  have delete_mset: "mset (todos (deleteTodo (todos s) i (Some e) s)) = mset (todos s)"
  proof (cases "find (\<lambda>t. id' t = i) (todos s)")
    case None
    with delete show ?thesis by simp
  next
    case (Some d)
    with delete have "todos (deleteTodo (todos s) i (Some e) s) =
        d # filter (\<lambda>t. id' t \<noteq> i) (todos s)"
      by simp
    with delete_reinsert_mset [OF assms Some] show ?thesis by simp
  qed
  have clear: "todos (clearCompleted (todos s) (Some e) s) =
     filter (\<lambda>t. completed t) (todos s) @ filter (\<lambda>t. \<not> completed t) (todos s)"
    by (simp add: clearCompleted_def clearCompleted_start_def clearCompleted_finish_def
        clearCompleted_optimistic_def Let_def)
  have clear_mset: "mset (todos (clearCompleted (todos s) (Some e) s)) = mset (todos s)"
    by (simp add: clear)
  from create toggle status delete head delete_mset clear clear_mset show ?thesis
    by blast
qed

theorem failed_write_rollback_witness:
  "distinct (map id' (todos (typing ''Boil eggs'' [bread, milk, eggs]))) \<and>
   todos (addTodo (Some ''u1'') (Inl ''offline'') (typing ''Boil eggs'' [bread, milk, eggs])) =
     [bread, milk, eggs] \<and>
   todos (toggleTodo ''a'' False (Some ''offline'') (typing ''Boil eggs'' [bread, milk, eggs])) =
     [bread, milk, eggs] \<and>
   todos (updateTodoStatus [bread, milk, eggs] ''a'' DONE (Some ''offline'')
            (typing ''Boil eggs'' [bread, milk, eggs])) = [bread, milk, eggs] \<and>
   todos (deleteTodo [bread, milk, eggs] ''a'' (Some ''offline'')
            (typing ''Boil eggs'' [bread, milk, eggs])) = [milk, bread, eggs] \<and>
   todos (clearCompleted [bread, milk, eggs] (Some ''offline'')
            (typing ''Boil eggs'' [bread, milk, eggs])) = [bread, eggs, milk]"
  using failed_write_rollback
    [where s = "typing ''Boil eggs'' [bread, milk, eggs]" and user = "Some ''u1''"
       and e = "''offline''" and i = "''a''" and st = DONE]
  by (simp add: sample_defs)

section \<open>Change-stream reconciliation\<close>

text \<open>
  C4. The INSERT handler is idempotent by identifier: when some cache entry already has
  the identifier of the incoming record the handler leaves the cache as it is, and when
  no entry has it the incoming record is put in front of the cache.
\<close>

theorem insert_handler_idempotent_by_id:
  "(id' new \<in> set (map id' (todos s)) \<longrightarrow>
      payload_update (INSERT new) (todos s) = todos s \<and>
      todos (on_postgres_changes (INSERT new) s) = todos s) \<and>
   (id' new \<notin> set (map id' (todos s)) \<longrightarrow>
      payload_update (INSERT new) (todos s) = new # todos s \<and>
      todos (on_postgres_changes (INSERT new) s) = new # todos s)"
  by (simp add: on_postgres_changes_def list_ex_same_id)

theorem insert_handler_idempotent_by_id_witness:
  "id' milk \<in> set (map id' (todos (showing [bread, milk]))) \<and>
   todos (on_postgres_changes (INSERT milk) (showing [bread, milk])) = [bread, milk] \<and>
   id' eggs \<notin> set (map id' (todos (showing [bread, milk]))) \<and>
   todos (on_postgres_changes (INSERT eggs) (showing [bread, milk])) = [eggs, bread, milk]"
  using insert_handler_idempotent_by_id [of milk "showing [bread, milk]"]
        insert_handler_idempotent_by_id [of eggs "showing [bread, milk]"]
  by (simp add: sample_defs)

text \<open>
  C5. The DELETE handler keeps the records whose identifier differs from the one of the
  event, in their order, so no entry with that identifier is left; when no entry has the
  identifier the cache is unchanged. The handler is a total function on caches: it has no
  failing branch.
\<close>

theorem delete_handler_removes_or_skips:
  "todos (on_postgres_changes (DELETE i) s) = filter (\<lambda>todo. id' todo \<noteq> i) (todos s) \<and>
   i \<notin> set (map id' (todos (on_postgres_changes (DELETE i) s))) \<and>
   (i \<notin> set (map id' (todos s)) \<longrightarrow> todos (on_postgres_changes (DELETE i) s) = todos s)"
  by (auto simp: on_postgres_changes_def filter_absent_id)

theorem delete_handler_removes_or_skips_witness:
  "todos (on_postgres_changes (DELETE ''a'') (showing [bread, milk, eggs])) = [bread, eggs] \<and>
   ''z'' \<notin> set (map id' (todos (showing [bread, milk, eggs]))) \<and>
   todos (on_postgres_changes (DELETE ''z'') (showing [bread, milk, eggs])) =
     [bread, milk, eggs]"
  using delete_handler_removes_or_skips [of "''a''" "showing [bread, milk, eggs]"]
        delete_handler_removes_or_skips [of "''z''" "showing [bread, milk, eggs]"]
  by (simp add: sample_defs)

section \<open>Toggle and status\<close>

text \<open>
  C6 (as stated, refuted on a cache that already holds a duplicate). The claim asks, for
  every cache containing the record, that after the failed toggle and its rollback the
  cache has at most one entry for the identifier. A create whose INSERT event is handled
  before its response leaves two entries for \<open>milk\<close>; toggling \<open>milk\<close> there, with a
  failing remote write, rolls back to the same two entries.
\<close>

theorem toggle_rollback_keeps_earlier_duplicate:
  "todos create_raced = [milk, milk] \<and>
   milk \<in> set (todos create_raced) \<and>
   todos (toggleTodo (id' milk) (completed milk) (Some ''offline'') create_raced) =
     [milk, milk] \<and>
   \<not> distinct (map id'
       (todos (toggleTodo (id' milk) (completed milk) (Some ''offline'') create_raced)))"
  by (simp add: create_raced_def handler_defs updater_defs sample_defs)

text \<open>
  C6 (amended). A record of the cache is toggled (the handler is called with the record's
  identifier and its completed flag, as the checkbox does), the remote write fails and
  the rollback runs. Afterwards every entry with that identifier has the pre-toggle
  completed flag, and the cache has the same identifiers at the same positions as before
  the toggle: the toggle and its rollback add no entry and remove none, so the number of
  entries for the identifier is the one before the toggle, and the cache has one entry
  per identifier after the rollback exactly when it had before. A cache with one entry
  per identifier is restored exactly.
\<close>

theorem toggle_rollback_restores_flag:
  assumes "t \<in> set (todos s)"
  shows "(\<forall>u \<in> set (todos (toggleTodo (id' t) (completed t) (Some e) s)).
            id' u = id' t \<longrightarrow> completed u = completed t) \<and>
         map id' (todos (toggleTodo (id' t) (completed t) (Some e) s)) = map id' (todos s) \<and>
         length (filter (\<lambda>u. id' u = id' t)
             (todos (toggleTodo (id' t) (completed t) (Some e) s))) =
           length (filter (\<lambda>u. id' u = id' t) (todos s)) \<and>
         distinct (map id' (todos (toggleTodo (id' t) (completed t) (Some e) s))) =
           distinct (map id' (todos s)) \<and>
         (distinct (map id' (todos s)) \<longrightarrow>
            todos (toggleTodo (id' t) (completed t) (Some e) s) = todos s)"
proof -
  let ?after = "todos (toggleTodo (id' t) (completed t) (Some e) s)"
  have ids: "map id' ?after = map id' (todos s)"
    by (simp add: toggleTodo_def toggleTodo_start_def toggleTodo_finish_def
        toggleTodo_revert_def toggleTodo_optimistic_def)
  have flag: "\<forall>u \<in> set ?after. id' u = id' t \<longrightarrow> completed u = completed t"
    by (auto simp: toggleTodo_def toggleTodo_start_def toggleTodo_finish_def
        toggleTodo_revert_def toggleTodo_optimistic_def)
  have count: "length (filter (\<lambda>u. id' u = id' t) ?after) =
      length (filter (\<lambda>u. id' u = id' t) (todos s))"
    using ids by (rule count_same_id)
  have same: "distinct (map id' (todos s)) \<longrightarrow> ?after = todos s"
    using assms
    by (simp add: toggleTodo_def toggleTodo_start_def toggleTodo_finish_def toggle_round_trip)
  from ids flag count same show ?thesis by simp
qed

theorem toggle_rollback_restores_flag_witness:
  "bread \<in> set (todos (showing [milk, bread, eggs])) \<and>
   distinct (map id' (todos (showing [milk, bread, eggs]))) \<and>
   todos (toggleTodo_start ''b'' True (showing [milk, bread, eggs])) =
     [milk, bread\<lparr>completed := False\<rparr>, eggs] \<and>
   todos (toggleTodo ''b'' True (Some ''offline'') (showing [milk, bread, eggs])) =
     [milk, bread, eggs] \<and>
   distinct (map id' (todos (toggleTodo ''b'' True (Some ''offline'')
     (showing [milk, bread, eggs])))) \<and>
   length (filter (\<lambda>u. id' u = ''b'')
     (todos (toggleTodo ''b'' True (Some ''offline'') (showing [milk, bread, eggs])))) = 1"
  using toggle_rollback_restores_flag
    [where t = bread and s = "showing [milk, bread, eggs]" and e = "''offline''"]
  by (simp add: sample_defs toggleTodo_start_def toggleTodo_optimistic_def)

text \<open>
  C7. The completed flag and the status are independent. The optimistic update of
  \<open>toggleTodo\<close> keeps the length of the cache; at every position, a record with another
  identifier is unchanged, and a record with the given identifier gets the negated flag
  while its identifier, owner, text, status and timestamps stay. The optimistic update of
  \<open>updateTodoStatus\<close> does the same with the status: the completed flag and the other
  fields of the record stay, and the other records are unchanged.
\<close>

theorem toggle_and_status_are_independent:
  "length (toggleTodo_optimistic i c current) = length current \<and>
   length (updateTodoStatus_optimistic i st current) = length current \<and>
   (\<forall>k < length current.
      (id' (current ! k) \<noteq> i \<longrightarrow>
         toggleTodo_optimistic i c current ! k = current ! k \<and>
         updateTodoStatus_optimistic i st current ! k = current ! k) \<and>
      (id' (current ! k) = i \<longrightarrow>
         toggleTodo_optimistic i c current ! k = (current ! k)\<lparr>completed := \<not> c\<rparr> \<and>
         updateTodoStatus_optimistic i st current ! k = (current ! k)\<lparr>status := st\<rparr>) \<and>
      id' (toggleTodo_optimistic i c current ! k) = id' (current ! k) \<and>
      user_id (toggleTodo_optimistic i c current ! k) = user_id (current ! k) \<and>
      text' (toggleTodo_optimistic i c current ! k) = text' (current ! k) \<and>
      status (toggleTodo_optimistic i c current ! k) = status (current ! k) \<and>
      created_at (toggleTodo_optimistic i c current ! k) = created_at (current ! k) \<and>
      updated_at (toggleTodo_optimistic i c current ! k) = updated_at (current ! k) \<and>
      id' (updateTodoStatus_optimistic i st current ! k) = id' (current ! k) \<and>
      user_id (updateTodoStatus_optimistic i st current ! k) = user_id (current ! k) \<and>
      text' (updateTodoStatus_optimistic i st current ! k) = text' (current ! k) \<and>
      completed (updateTodoStatus_optimistic i st current ! k) = completed (current ! k) \<and>
      created_at (updateTodoStatus_optimistic i st current ! k) = created_at (current ! k) \<and>
      updated_at (updateTodoStatus_optimistic i st current ! k) = updated_at (current ! k)) \<and>
   todos (toggleTodo_start i c s) = toggleTodo_optimistic i c (todos s) \<and>
   todos (updateTodoStatus_start i st s) = updateTodoStatus_optimistic i st (todos s)"
  by (simp add: toggleTodo_optimistic_def updateTodoStatus_optimistic_def
      toggleTodo_start_def updateTodoStatus_start_def)

theorem toggle_and_status_are_independent_witness:
  "toggleTodo_optimistic ''a'' False [bread, milk] ! 1 = milk\<lparr>completed := True\<rparr> \<and>
   toggleTodo_optimistic ''a'' False [bread, milk] ! 0 = bread \<and>
   status (toggleTodo_optimistic ''a'' False [bread, milk] ! 1) = TODO \<and>
   updateTodoStatus_optimistic ''a'' DONE [bread, milk\<lparr>completed := True\<rparr>] ! 1 =
     milk\<lparr>completed := True, status := DONE\<rparr> \<and>
   completed (updateTodoStatus_optimistic ''a'' DONE [bread, milk\<lparr>completed := True\<rparr>] ! 1) \<and>
   updateTodoStatus_optimistic ''a'' DONE [bread, milk\<lparr>completed := True\<rparr>] ! 0 = bread"
  using toggle_and_status_are_independent
          [where i = "''a''" and c = False and st = DONE and current = "[bread, milk]"]
        toggle_and_status_are_independent
          [where i = "''a''" and c = False and st = DONE
             and current = "[bread, milk\<lparr>completed := True\<rparr>]"]
  by (simp add: sample_defs toggleTodo_optimistic_def updateTodoStatus_optimistic_def)

section \<open>Bulk clear\<close>

text \<open>
  C8. The optimistic update of the bulk clear keeps the records whose completed flag is
  false and no other: the records it removes are the completed ones, and what is left is
  the list of the incomplete records in their original relative order.
\<close>

theorem clear_completed_keeps_incomplete:
  "clearCompleted_optimistic current = filter (\<lambda>t. \<not> completed t) current \<and>
   set (clearCompleted_optimistic current) = {t \<in> set current. \<not> completed t} \<and>
   set current - set (clearCompleted_optimistic current) = {t \<in> set current. completed t} \<and>
   subseq (clearCompleted_optimistic current) current \<and>
   todos (clearCompleted_start ids s) = clearCompleted_optimistic (todos s)"
  by (auto simp: clearCompleted_optimistic_def clearCompleted_start_def)

theorem clear_completed_keeps_incomplete_witness:
  "clearCompleted_optimistic [bread, milk, eggs, rice, soup] = [milk, rice] \<and>
   todos (clearCompleted_start [''b'', ''c'', ''e''] (showing [bread, milk, eggs, rice, soup])) =
     [milk, rice]"
  using clear_completed_keeps_incomplete
    [where current = "[bread, milk, eggs, rice, soup]" and ids = "[''b'', ''c'', ''e'']"
       and s = "showing [bread, milk, eggs, rice, soup]"]
  by (simp add: sample_defs)

section \<open>Configuration gate\<close>

text \<open>
  C9. When the base URL or the public key is absent from the environment,
  \<open>AppContent\<close> returns the configuration-error screen whatever the session says, and
  so neither the authentication modal nor the todo application.
\<close>

theorem missing_configuration_blocks_app:
  "supabaseUrl = None \<or> supabaseAnonKey = None \<longrightarrow>
     \<not> hasSupabaseConfig supabaseUrl supabaseAnonKey \<and>
     AppContent supabaseUrl supabaseAnonKey loading user = ConfigurationError \<and>
     AppContent supabaseUrl supabaseAnonKey loading user \<noteq> AuthModal \<and>
     AppContent supabaseUrl supabaseAnonKey loading user \<noteq> TodoApp"
  by (auto simp: AppContent_def hasSupabaseConfig_def truthy_def)

theorem missing_configuration_blocks_app_witness:
  "AppContent None (Some ''anon-key'') False (Some ''u1'') = ConfigurationError \<and>
   AppContent (Some ''https://x.supabase.co'') None False None = ConfigurationError \<and>
   AppContent (Some ''https://x.supabase.co'') (Some ''anon-key'') False None = AuthModal \<and>
   AppContent (Some ''https://x.supabase.co'') (Some ''anon-key'') False (Some ''u1'') = TodoApp"
  using missing_configuration_blocks_app [of None "Some ''anon-key''" False "Some ''u1''"]
        missing_configuration_blocks_app [of "Some ''https://x.supabase.co''" None False None]
  by (simp add: AppContent_def hasSupabaseConfig_def truthy_def)

section \<open>Actions on an identifier that the cache does not hold\<close>




end
